theory Spec2Isabelle
  imports Complex_Main "HOL-Library.Sublist"
begin

section \<open>Strings\<close>

text \<open>
  A JavaScript string is modelled as a \<^typ>\<open>string\<close> holding its UTF-8 bytes. Every
  operation the trace store applies to strings (\<open>split("\n")\<close>, \<open>indexOf\<close>,
  \<open>startsWith\<close>, \<open>includes\<close>, \<open>substring(0, idx)\<close> at an index returned by
  \<open>indexOf\<close>) gives the same answer on the bytes as on the code units, since UTF-8 is
  self-synchronising and the byte \<open>0x0A\<close> only ever encodes a line feed.
\<close>

definition startsWith :: "string \<Rightarrow> string \<Rightarrow> bool" where
  "startsWith s p = prefix p s"

text \<open>\<open>s.indexOf(pat)\<close>: the first position where \<open>pat\<close> occurs, \<open>None\<close> for \<open>-1\<close>.\<close>

fun indexOf :: "string \<Rightarrow> string \<Rightarrow> nat option" where
  "indexOf [] pat = (if pat = [] then Some 0 else None)"
| "indexOf (c # cs) pat =
     (if prefix pat (c # cs) then Some 0 else map_option Suc (indexOf cs pat))"

definition includes_str :: "string \<Rightarrow> string \<Rightarrow> bool" where
  "includes_str s pat = (indexOf s pat \<noteq> None)"

text \<open>\<open>s.split("\n")\<close>: never empty; \<open>"".split("\n")\<close> is \<open>[""]\<close>.\<close>

fun split_nl :: "string \<Rightarrow> string list" where
  "split_nl [] = [[]]"
| "split_nl (c # cs) =
     (if c = CHR 0x0A then [] # split_nl cs
      else (case split_nl cs of [] \<Rightarrow> [[c]] | l # ls \<Rightarrow> (c # l) # ls))"

section \<open>Model identifier normalisation\<close>

text \<open>The prefix table of \<open>normalizeModelId\<close>, in the insertion order that
  \<open>Object.entries\<close> enumerates.\<close>

definition prefixes :: "(string \<times> string) list" where
  "prefixes =
     [(''claude-'', ''anthropic''),
      (''gpt-'', ''openai''),
      (''o1'', ''openai''),
      (''o3'', ''openai''),
      (''gemini-'', ''google'')]"

text \<open>The \<open>for (const [prefix, provider] of Object.entries(prefixes))\<close> loop, with the
  \<open>return model\<close> that follows it.\<close>

fun prefixLoop :: "(string \<times> string) list \<Rightarrow> string \<Rightarrow> string" where
  "prefixLoop [] model = model"
| "prefixLoop ((p, provider) # rest) model =
     (if startsWith model p then provider @ ''/'' @ model else prefixLoop rest model)"

text \<open>The argument is \<open>None\<close> for \<open>undefined\<close>; so is the result.\<close>

definition normalizeModelId :: "string option \<Rightarrow> string option" where
  "normalizeModelId model =
     (case model of
        None \<Rightarrow> None
      | Some m \<Rightarrow>
          if m = [] then None
          else if includes_str m ''/'' then Some m
          else Some (prefixLoop prefixes m))"

section \<open>Range diff engine\<close>

record RangePosition =
  start_line :: int
  end_line :: int

text \<open>The optional \<open>range\<close> member of a \<open>FileEdit\<close>.\<close>

record EditRange =
  start_line_number :: int
  end_line_number :: int
  start_column :: int
  end_column :: int

text \<open>\<open>FileEdit\<close>; its member \<open>range\<close> is named \<open>edit_range\<close> here, and is
  \<open>None\<close> when the tool supplied no range.\<close>

record FileEdit =
  old_string :: string
  new_string :: string
  edit_range :: "EditRange option"

text \<open>The inner \<open>lookAhead\<close> loop of \<open>diffToFindChangedLines\<close>: the first index from
  \<open>lookAhead\<close> on at which \<open>oldLines\<close> holds \<open>line\<close>, \<open>None\<close> when \<open>foundAhead\<close>
  stays false.\<close>

function findAhead :: "string list \<Rightarrow> string \<Rightarrow> nat \<Rightarrow> nat option" where
  "findAhead oldLines line lookAhead =
     (if lookAhead < length oldLines then
        (if oldLines ! lookAhead = line then Some lookAhead
         else findAhead oldLines line (Suc lookAhead))
      else None)"
  by pat_completeness auto
termination
  by (relation "measure (\<lambda>(oldLines, line, lookAhead). length oldLines - lookAhead)") auto

declare findAhead.simps [simp del]

text \<open>The outer loop over \<open>newIdx\<close>, carrying \<open>oldIdx\<close> and \<open>changedOffsets\<close>.\<close>

function diffLoop ::
  "string list \<Rightarrow> string list \<Rightarrow> nat \<Rightarrow> nat \<Rightarrow> nat list \<Rightarrow> nat list" where
  "diffLoop oldLines newLines oldIdx newIdx changedOffsets =
     (if newIdx < length newLines then
        (if oldIdx < length oldLines \<and> oldLines ! oldIdx = newLines ! newIdx then
           diffLoop oldLines newLines (Suc oldIdx) (Suc newIdx) changedOffsets
         else
           (case findAhead oldLines (newLines ! newIdx) oldIdx of
              Some lookAhead \<Rightarrow>
                diffLoop oldLines newLines (lookAhead + 1) (Suc newIdx) changedOffsets
            | None \<Rightarrow>
                diffLoop oldLines newLines oldIdx (Suc newIdx) (changedOffsets @ [newIdx])))
      else changedOffsets)"
  by pat_completeness auto
termination
  by (relation "measure (\<lambda>(oldLines, newLines, oldIdx, newIdx, changedOffsets).
        length newLines - newIdx)") auto

declare diffLoop.simps [simp del]

definition diffToFindChangedLines :: "string \<Rightarrow> string \<Rightarrow> nat list" where
  "diffToFindChangedLines oldStr newStr =
     diffLoop (split_nl oldStr) (split_nl newStr) 0 0 []"

text \<open>The loop of \<open>computeRangePositions\<close> that merges adjacent offsets, from index
  \<open>i\<close> on, with the \<open>ranges.push\<close> that follows the loop.\<close>

function mergeLoop ::
  "nat \<Rightarrow> nat list \<Rightarrow> nat \<Rightarrow> nat \<Rightarrow> nat \<Rightarrow> RangePosition list \<Rightarrow> RangePosition list" where
  "mergeLoop startLine changedOffsets i rangeStart rangeEnd ranges =
     (if i < length changedOffsets then
        (if changedOffsets ! i = rangeEnd + 1 then
           mergeLoop startLine changedOffsets (Suc i) rangeStart (changedOffsets ! i) ranges
         else
           mergeLoop startLine changedOffsets (Suc i) (changedOffsets ! i) (changedOffsets ! i)
             (ranges @ [\<lparr>start_line = int (startLine + rangeStart),
                         end_line = int (startLine + rangeEnd)\<rparr>]))
      else
        ranges @ [\<lparr>start_line = int (startLine + rangeStart),
                    end_line = int (startLine + rangeEnd)\<rparr>])"
  by pat_completeness auto
termination
  by (relation "measure (\<lambda>(startLine, changedOffsets, i, rangeStart, rangeEnd, ranges).
        length changedOffsets - i)") auto

declare mergeLoop.simps [simp del]

text \<open>\<open>fileContent.substring(0, idx).split("\n").length\<close>: the 1-based line of position
  \<open>idx\<close>.\<close>

definition lineAt :: "string \<Rightarrow> nat \<Rightarrow> nat" where
  "lineAt fileContent idx = length (split_nl (take idx fileContent))"

text \<open>Case 2 of \<open>computeRangePositions\<close>: \<open>Some\<close> of what it returns, \<open>None\<close> when
  control falls through to case 3. An absent or empty \<open>fileContent\<close> is falsy, and so
  is an empty \<open>old_string\<close>.\<close>

definition diffCase :: "string option \<Rightarrow> FileEdit \<Rightarrow> RangePosition list option" where
  "diffCase fileContent edit =
     (case fileContent of
        None \<Rightarrow> None
      | Some fc \<Rightarrow>
          if old_string edit \<noteq> [] \<and> new_string edit \<noteq> [] \<and> fc \<noteq> [] then
            (case indexOf fc (new_string edit) of
               None \<Rightarrow> None
             | Some idx \<Rightarrow>
                 let startLine = lineAt fc idx;
                     changedOffsets = diffToFindChangedLines (old_string edit) (new_string edit)
                 in if length changedOffsets = 0 then Some []
                    else Some (mergeLoop startLine changedOffsets 1
                                 (changedOffsets ! 0) (changedOffsets ! 0) []))
          else None)"

text \<open>Case 3, the fallback that attributes the whole of \<open>new_string\<close>.\<close>

definition fallbackCase :: "string option \<Rightarrow> FileEdit \<Rightarrow> RangePosition list" where
  "fallbackCase fileContent edit =
     (let lineCount = length (split_nl (new_string edit));
          atLineOne = [\<lparr>start_line = 1, end_line = int lineCount\<rparr>]
      in case fileContent of
           None \<Rightarrow> atLineOne
         | Some fc \<Rightarrow>
             if fc \<noteq> [] then
               (case indexOf fc (new_string edit) of
                  None \<Rightarrow> atLineOne
                | Some idx \<Rightarrow>
                    let startLine = lineAt fc idx
                    in [\<lparr>start_line = int startLine,
                         end_line = int startLine + int lineCount - 1\<rparr>])
             else atLineOne)"

text \<open>The body of the \<open>flatMap\<close> callback.\<close>

definition editRanges :: "string option \<Rightarrow> FileEdit \<Rightarrow> RangePosition list" where
  "editRanges fileContent edit =
     (case edit_range edit of
        Some r \<Rightarrow> [\<lparr>start_line = start_line_number r, end_line = end_line_number r\<rparr>]
      | None \<Rightarrow>
          (case diffCase fileContent edit of
             Some ranges \<Rightarrow> ranges
           | None \<Rightarrow> fallbackCase fileContent edit))"

definition computeRangePositions :: "FileEdit list \<Rightarrow> string option \<Rightarrow> RangePosition list" where
  "computeRangePositions edits fileContent =
     concat (map (editRanges fileContent) (filter (\<lambda>e. new_string e \<noteq> []) edits))"

subsection \<open>Predicates on range lists\<close>

text \<open>A range list that marks exactly one line.\<close>

definition single_line :: "RangePosition list \<Rightarrow> bool" where
  "single_line rs = (case rs of [r] \<Rightarrow> start_line r = end_line r | _ \<Rightarrow> False)"

text \<open>Two inclusive ranges share a line.\<close>

definition overlaps :: "RangePosition \<Rightarrow> RangePosition \<Rightarrow> bool" where
  "overlaps r s = (start_line r \<le> end_line s \<and> start_line s \<le> end_line r)"

fun pairwise_disjoint :: "RangePosition list \<Rightarrow> bool" where
  "pairwise_disjoint [] = True"
| "pairwise_disjoint (r # rs) = (list_all (\<lambda>s. \<not> overlaps r s) rs \<and> pairwise_disjoint rs)"

text \<open>Each range ends before the next one starts.\<close>

definition ascending :: "RangePosition list \<Rightarrow> bool" where
  "ascending rs = sorted_wrt (\<lambda>r s. end_line r < start_line s) rs"

section \<open>Whitespace trimming\<close>

text \<open>
  The code points that \<open>String.prototype.trim\<close> removes (the ECMAScript WhiteSpace and
  LineTerminator productions), each as its UTF-8 bytes: U+0009 to U+000D, U+0020, U+00A0,
  U+1680, U+2000 to U+200A, U+2028, U+2029, U+202F, U+205F, U+3000 and U+FEFF.
\<close>

definition whitespace :: "string list" where
  "whitespace =
     [[CHR 0x09], [CHR 0x0A], [CHR 0x0B], [CHR 0x0C], [CHR 0x0D], [CHR 0x20],
      [CHR 0xC2, CHR 0xA0],
      [CHR 0xE1, CHR 0x9A, CHR 0x80],
      [CHR 0xE2, CHR 0x80, CHR 0x80], [CHR 0xE2, CHR 0x80, CHR 0x81],
      [CHR 0xE2, CHR 0x80, CHR 0x82], [CHR 0xE2, CHR 0x80, CHR 0x83],
      [CHR 0xE2, CHR 0x80, CHR 0x84], [CHR 0xE2, CHR 0x80, CHR 0x85],
      [CHR 0xE2, CHR 0x80, CHR 0x86], [CHR 0xE2, CHR 0x80, CHR 0x87],
      [CHR 0xE2, CHR 0x80, CHR 0x88], [CHR 0xE2, CHR 0x80, CHR 0x89],
      [CHR 0xE2, CHR 0x80, CHR 0x8A],
      [CHR 0xE2, CHR 0x80, CHR 0xA8], [CHR 0xE2, CHR 0x80, CHR 0xA9],
      [CHR 0xE2, CHR 0x80, CHR 0xAF],
      [CHR 0xE2, CHR 0x81, CHR 0x9F],
      [CHR 0xE3, CHR 0x80, CHR 0x80],
      [CHR 0xEF, CHR 0xBB, CHR 0xBF]]"

text \<open>Removes leading occurrences of the given non-empty byte sequences.\<close>

function stripLeading :: "string list \<Rightarrow> string \<Rightarrow> string" where
  "stripLeading ws s =
     (case List.find (\<lambda>w. w \<noteq> [] \<and> prefix w s) ws of
        Some w \<Rightarrow> stripLeading ws (drop (length w) s)
      | None \<Rightarrow> s)"
  by pat_completeness auto
termination
proof (relation "measure (\<lambda>(ws, s). length s)")
  show "wf (measure (\<lambda>(ws, s). length s))" by simp
next
  fix ws :: "string list" and s w :: string
  assume "List.find (\<lambda>w. w \<noteq> [] \<and> prefix w s) ws = Some w"
  then have "w \<noteq> []" and "prefix w s"
    by (auto simp: find_Some_iff)
  then have "length w \<le> length s" and "0 < length w"
    by (simp_all add: prefix_length_le)
  then have "length s - length w < length s"
    by arith
  then show "((ws, drop (length w) s), (ws, s)) \<in> measure (\<lambda>(ws, s). length s)"
    by simp
qed

declare stripLeading.simps [simp del]

text \<open>\<open>s.trim()\<close>.\<close>

definition trim :: "string \<Rightarrow> string" where
  "trim s = rev (stripLeading (map rev whitespace) (rev (stripLeading whitespace s)))"

section \<open>Values and exceptions\<close>

text \<open>What \<open>JSON.parse\<close> can return. An object is the list of its members, with the
  keys distinct, as \<open>JSON.parse\<close> builds it.\<close>

datatype json =
    JNull
  | JBool bool
  | JNumber rat
  | JString string
  | JArray "json list"
  | JObject "(string \<times> json) list"

text \<open>What a JavaScript call can throw here: \<open>JSON.parse\<close> on malformed text, a property
  read on \<open>null\<close>, and a failing system call with its error code.\<close>

datatype exn = SyntaxError | TypeError | SystemError string

text \<open>Reading property \<open>k\<close> of a value other than \<open>null\<close>; \<open>None\<close> is \<open>undefined\<close>. Only
  \<open>message\<close> and \<open>model\<close> are read, which no string, number, boolean or array has.\<close>

fun getProp :: "json \<Rightarrow> string \<Rightarrow> json option" where
  "getProp (JObject members) k = map_of members k"
| "getProp _ k = None"

text \<open>Truthiness of a value read from parsed JSON, \<open>None\<close> being \<open>undefined\<close>.\<close>

fun truthy :: "json option \<Rightarrow> bool" where
  "truthy None = False"
| "truthy (Some JNull) = False"
| "truthy (Some (JBool b)) = b"
| "truthy (Some (JNumber n)) = (n \<noteq> 0)"
| "truthy (Some (JString s)) = (s \<noteq> [])"
| "truthy (Some (JArray xs)) = True"
| "truthy (Some (JObject members)) = True"

text \<open>\<open>entry.message?.model\<close>: a \<open>TypeError\<close> when \<open>entry\<close> is \<open>null\<close>, \<open>undefined\<close> when
  \<open>entry.message\<close> is \<open>undefined\<close> or \<open>null\<close>.\<close>

definition messageModel :: "json \<Rightarrow> exn + json option" where
  "messageModel entry =
     (case entry of
        JNull \<Rightarrow> Inl TypeError
      | _ \<Rightarrow>
          (case getProp entry ''message'' of
             None \<Rightarrow> Inr None
           | Some JNull \<Rightarrow> Inr None
           | Some message \<Rightarrow> Inr (getProp message ''model'')))"

section \<open>The range diff engine with its exceptions\<close>

text \<open>
  \<open>computeRangePositions\<close> once more, now with what it can throw. On values of the
  declared types (\<open>FileEdit[]\<close> and \<open>string | undefined\<close>) the only operations of the
  function that can throw are reads of a member of a value that may be \<open>undefined\<close>:
  \<open>edit.range.start_line_number\<close> and \<open>edit.range.end_line_number\<close>, and the calls
  \<open>fileContent.indexOf\<close> and \<open>fileContent.substring\<close>. An array read out of range
  gives \<open>undefined\<close> and does not throw, and the loops of the diff read no member of
  such a value, so \<open>diffToFindChangedLines\<close> and \<open>mergeLoop\<close> stand as they are.
\<close>

text \<open>The receiver of a member read or of a method call: \<open>undefined\<close> throws a
  \<open>TypeError\<close>.\<close>

definition memberOf :: "'a option \<Rightarrow> exn + 'a" where
  "memberOf receiver = (case receiver of None \<Rightarrow> Inl TypeError | Some x \<Rightarrow> Inr x)"

text \<open>The body of the \<open>flatMap\<close> callback: \<open>Inl e\<close> when it throws \<open>e\<close>. The tests
  \<open>if (edit.range)\<close>, \<open>&& fileContent\<close> and \<open>if (fileContent)\<close> are written as the source
  has them, before the member reads they guard.\<close>

definition editRangesThrowing :: "string option \<Rightarrow> FileEdit \<Rightarrow> exn + RangePosition list" where
  "editRangesThrowing fileContent edit =
     (if edit_range edit \<noteq> None then
        (case memberOf (edit_range edit) of
           Inl e \<Rightarrow> Inl e
         | Inr r \<Rightarrow> Inr [\<lparr>start_line = start_line_number r, end_line = end_line_number r\<rparr>])
      else
        (case
           (if old_string edit \<noteq> [] \<and> new_string edit \<noteq> []
               \<and> fileContent \<noteq> None \<and> fileContent \<noteq> Some [] then
              (case memberOf fileContent of
                 Inl e \<Rightarrow> Inl e
               | Inr fc \<Rightarrow>
                   (case indexOf fc (new_string edit) of
                      None \<Rightarrow> Inr None
                    | Some idx \<Rightarrow>
                        let startLine = lineAt fc idx;
                            changedOffsets =
                              diffToFindChangedLines (old_string edit) (new_string edit)
                        in if length changedOffsets = 0 then Inr (Some [])
                           else Inr (Some (mergeLoop startLine changedOffsets 1
                                        (changedOffsets ! 0) (changedOffsets ! 0) []))))
            else Inr None) of
           Inl e \<Rightarrow> Inl e
         | Inr (Some ranges) \<Rightarrow> Inr ranges
         | Inr None \<Rightarrow>
             (let lineCount = length (split_nl (new_string edit));
                  atLineOne = [\<lparr>start_line = 1, end_line = int lineCount\<rparr>]
              in if fileContent \<noteq> None \<and> fileContent \<noteq> Some [] then
                   (case memberOf fileContent of
                      Inl e \<Rightarrow> Inl e
                    | Inr fc \<Rightarrow>
                        (case indexOf fc (new_string edit) of
                           None \<Rightarrow> Inr atLineOne
                         | Some idx \<Rightarrow>
                             let startLine = lineAt fc idx
                             in Inr [\<lparr>start_line = int startLine,
                                      end_line = int startLine + int lineCount - 1\<rparr>]))
                 else Inr atLineOne)))"

text \<open>\<open>flatMap\<close> with a callback that can throw: the first exception ends the call.\<close>

fun flatMapThrowing :: "('a \<Rightarrow> exn + 'b list) \<Rightarrow> 'a list \<Rightarrow> exn + 'b list" where
  "flatMapThrowing f [] = Inr []"
| "flatMapThrowing f (x # xs) =
     (case f x of
        Inl e \<Rightarrow> Inl e
      | Inr ys \<Rightarrow>
          (case flatMapThrowing f xs of
             Inl e \<Rightarrow> Inl e
           | Inr zs \<Rightarrow> Inr (ys @ zs)))"

definition computeRangePositionsThrowing ::
  "FileEdit list \<Rightarrow> string option \<Rightarrow> exn + RangePosition list" where
  "computeRangePositionsThrowing edits fileContent =
     flatMapThrowing (editRangesThrowing fileContent) (filter (\<lambda>e. new_string e \<noteq> []) edits)"

section \<open>Model extraction from a transcript\<close>

text \<open>
  The file system as \<open>extractModelFromTranscript\<close> sees it. Each call either throws or
  returns: \<open>openSync\<close> a descriptor, \<open>fstatSync\<close> the \<open>stats.size\<close>, \<open>closeSync\<close> nothing.
  \<open>readSync fd n pos\<close> stands for \<open>Buffer.alloc(n)\<close>, \<open>readSync(fd, buffer, 0, n, pos)\<close>
  and \<open>buffer.toString("utf-8")\<close> together, and returns the decoded buffer. The transcript
  is not written while it is read, so the outcome of a call depends on its arguments only.
\<close>

record fs_read =
  openSync :: "string \<Rightarrow> exn + nat"
  fstatSync :: "nat \<Rightarrow> exn + nat"
  readSync :: "nat \<Rightarrow> nat \<Rightarrow> nat \<Rightarrow> exn + string"
  closeSync :: "nat \<Rightarrow> exn + unit"

text \<open>The body of the inner \<open>try\<close> for one trimmed, non-empty line: \<open>Inl\<close> when it
  throws, \<open>Inr (Some m)\<close> when it returns the model \<open>m\<close>, \<open>Inr None\<close> when it falls out
  of the \<open>if\<close>. \<open>JSON_parse\<close> is \<open>JSON.parse\<close>.\<close>

definition tryParseLine ::
  "fs_read \<Rightarrow> (string \<Rightarrow> exn + json) \<Rightarrow> nat \<Rightarrow> string \<Rightarrow> exn + json option" where
  "tryParseLine fs JSON_parse fd line =
     (case JSON_parse line of
        Inl e \<Rightarrow> Inl e
      | Inr entry \<Rightarrow>
          (case messageModel entry of
             Inl e \<Rightarrow> Inl e
           | Inr model \<Rightarrow>
               if truthy model then
                 (case closeSync fs fd of
                    Inl e \<Rightarrow> Inl e
                  | Inr u \<Rightarrow> Inr model)
               else Inr None))"

text \<open>The \<open>for (let i = lines.length - 1; i >= 0; i--)\<close> loop; the last argument is
  \<open>i + 1\<close>. \<open>Some m\<close> when the loop returns \<open>m\<close> from the function, \<open>None\<close> when it runs
  to its end. The \<open>catch\<close> of the inner \<open>try\<close> continues with the next line.\<close>

fun scanLines ::
  "fs_read \<Rightarrow> (string \<Rightarrow> exn + json) \<Rightarrow> nat \<Rightarrow> string list \<Rightarrow> nat \<Rightarrow> json option" where
  "scanLines fs JSON_parse fd lines 0 = None"
| "scanLines fs JSON_parse fd lines (Suc i) =
     (if trim (lines ! i) = [] then scanLines fs JSON_parse fd lines i
      else
        (case tryParseLine fs JSON_parse fd (trim (lines ! i)) of
           Inl e \<Rightarrow> scanLines fs JSON_parse fd lines i
         | Inr None \<Rightarrow> scanLines fs JSON_parse fd lines i
         | Inr (Some m) \<Rightarrow> Some m))"

text \<open>The statements after the \<open>while\<close> loop.\<close>

definition closeAndGiveUp :: "fs_read \<Rightarrow> nat \<Rightarrow> exn + json option" where
  "closeAndGiveUp fs fd = (case closeSync fs fd of Inl e \<Rightarrow> Inl e | Inr u \<Rightarrow> Inr None)"

text \<open>The \<open>while (readSize <= stats.size)\<close> loop with what follows it: \<open>None\<close> when the
  loop does not come to an end, else \<open>Some\<close> of what the outer \<open>try\<close> block throws or
  returns.\<close>

partial_function (option) windowLoop ::
  "fs_read \<Rightarrow> (string \<Rightarrow> exn + json) \<Rightarrow> nat \<Rightarrow> nat \<Rightarrow> nat \<Rightarrow> (exn + json option) option" where
  "windowLoop fs JSON_parse fd statSize readSize =
     (if readSize \<le> statSize then
        (case readSync fs fd readSize (statSize - readSize) of
           Inl e \<Rightarrow> Some (Inl e)
         | Inr content \<Rightarrow>
             (case scanLines fs JSON_parse fd (split_nl content) (length (split_nl content)) of
                Some m \<Rightarrow> Some (Inr (Some m))
              | None \<Rightarrow>
                  if readSize \<ge> statSize then Some (closeAndGiveUp fs fd)
                  else windowLoop fs JSON_parse fd statSize (min statSize (readSize * 2))))
      else Some (closeAndGiveUp fs fd))"

text \<open>The outer \<open>try\<close> block.\<close>

definition extractBody ::
  "fs_read \<Rightarrow> (string \<Rightarrow> exn + json) \<Rightarrow> string \<Rightarrow> (exn + json option) option" where
  "extractBody fs JSON_parse transcriptPath =
     (case openSync fs transcriptPath of
        Inl e \<Rightarrow> Some (Inl e)
      | Inr fd \<Rightarrow>
          (case fstatSync fs fd of
             Inl e \<Rightarrow> Some (Inl e)
           | Inr statSize \<Rightarrow>
               windowLoop fs JSON_parse fd statSize (min statSize (4 * 1024))))"

text \<open>\<open>extractModelFromTranscript\<close>: the outer \<open>catch\<close> returns \<open>undefined\<close>. The result
  is \<open>None\<close> when the call does not return, \<open>Some (Inl e)\<close> when it throws \<open>e\<close>,
  \<open>Some (Inr None)\<close> when it returns \<open>undefined\<close> and \<open>Some (Inr (Some m))\<close> when it
  returns \<open>m\<close>.\<close>

definition extractModelFromTranscript ::
  "fs_read \<Rightarrow> (string \<Rightarrow> exn + json) \<Rightarrow> string \<Rightarrow> (exn + json option) option" where
  "extractModelFromTranscript fs JSON_parse transcriptPath =
     (case extractBody fs JSON_parse transcriptPath of
        None \<Rightarrow> None
      | Some (Inl e) \<Rightarrow> Some (Inr None)
      | Some (Inr r) \<Rightarrow> Some (Inr r))"

subsection \<open>A readable transcript, and the result in the spec's words\<close>

text \<open>The operations on a file system in which \<open>transcriptPath\<close> is a readable file
  holding \<open>content\<close> and every other path is missing: reads return the bytes asked for.\<close>

definition regularFile :: "string \<Rightarrow> string \<Rightarrow> fs_read" where
  "regularFile transcriptPath content =
     \<lparr>openSync = (\<lambda>p. if p = transcriptPath then Inr 3 else Inl (SystemError ''ENOENT'')),
      fstatSync = (\<lambda>fd. Inr (length content)),
      readSync = (\<lambda>fd n pos. Inr (take n (drop pos content))),
      closeSync = (\<lambda>fd. Inr ())\<rparr>"

text \<open>Following the spec: the model field a line carries, if the line, once trimmed, is
  not empty, parses as a JSON record and has a model field (a truthy \<open>message.model\<close>).\<close>

definition carriedModel :: "(string \<Rightarrow> exn + json) \<Rightarrow> string \<Rightarrow> json option" where
  "carriedModel JSON_parse line =
     (if trim line = [] then None
      else
        (case JSON_parse (trim line) of
           Inl e \<Rightarrow> None
         | Inr entry \<Rightarrow>
             (case messageModel entry of
                Inl e \<Rightarrow> None
              | Inr model \<Rightarrow> if truthy model then model else None)))"

text \<open>Following the spec: the model field of the line closest to the end that parses and
  carries one.\<close>

definition lastCarried :: "(string \<Rightarrow> exn + json) \<Rightarrow> string list \<Rightarrow> json option" where
  "lastCarried JSON_parse lines =
     (case List.find (\<lambda>l. carriedModel JSON_parse l \<noteq> None) (rev lines) of
        None \<Rightarrow> None
      | Some l \<Rightarrow> carriedModel JSON_parse l)"

text \<open>The last \<open>n\<close> bytes of the file.\<close>

definition tailWindow :: "string \<Rightarrow> nat \<Rightarrow> string" where
  "tailWindow content n = drop (length content - n) content"

text \<open>Following the spec: scan the tail window of \<open>n\<close> bytes from its end; if it holds
  no model-bearing line and is smaller than the file, double it, capped at the size of the
  file, and retry.\<close>

function expandingWindow :: "(string \<Rightarrow> exn + json) \<Rightarrow> string \<Rightarrow> nat \<Rightarrow> json option" where
  "expandingWindow JSON_parse content n =
     (case lastCarried JSON_parse (split_nl (tailWindow content n)) of
        Some m \<Rightarrow> Some m
      | None \<Rightarrow>
          if n = 0 \<or> length content \<le> n then None
          else expandingWindow JSON_parse content (min (length content) (2 * n)))"
  by pat_completeness auto
termination
  by (relation "measure (\<lambda>(JSON_parse, content, n). length content - n)") auto

declare expandingWindow.simps [simp del]


subsection \<open>Example transcripts\<close>

text \<open>The record text \<open>{"message":{"model":"\<dots>"}}\<close> for a model name.\<close>

definition recordText :: "string \<Rightarrow> string" where
  "recordText m =
     ''{'' @ [CHR 0x22] @ ''message'' @ [CHR 0x22] @ '':{'' @ [CHR 0x22] @ ''model''
     @ [CHR 0x22] @ '':'' @ [CHR 0x22] @ m @ [CHR 0x22] @ ''}}''"

text \<open>\<open>JSON.parse\<close> on the texts of the examples: it parses the record texts for the
  models \<open>X\<close> and \<open>Y\<close>, and throws on every other text passed to it there (none of
  them is well-formed JSON).\<close>

definition parseKnown :: "string \<Rightarrow> exn + json" where
  "parseKnown s =
     (if s = recordText ''X'' then
        Inr (JObject [(''message'', JObject [(''model'', JString ''X'')])])
      else if s = recordText ''Y'' then
        Inr (JObject [(''message'', JObject [(''model'', JString ''Y'')])])
      else Inl SyntaxError)"



text \<open>A transcript of one malformed line: \<open>x\<close>, 4096 spaces and the record text for
  \<open>X\<close>.\<close>

definition oneBadLine :: string where
  "oneBadLine = ''x'' @ replicate 4096 (CHR 0x20) @ recordText ''X''"





section \<open>Trace records\<close>

datatype ContributorType = Human | Ai | Mixed | Unknown

datatype VcsType = Git | Jj | Hg | Svn

text \<open>The \<open>contributor\<close> member of a range or conversation; its member \<open>type\<close> is named
  \<open>contributor_type\<close> here.\<close>

record Contributor =
  contributor_type :: ContributorType
  model_id :: "string option"

text \<open>\<open>Range\<close>: a \<open>RangePosition\<close> with the optional members \<open>content_hash\<close> and
  \<open>contributor\<close> (here \<open>range_contributor\<close>).\<close>

record Range = RangePosition +
  content_hash :: "string option"
  range_contributor :: "Contributor option"

record Conversation =
  url :: "string option"
  contributor :: "Contributor option"
  ranges :: "Range list"
  related :: "(string \<times> string) list option"

record FileEntry =
  path :: string
  conversations :: "Conversation list"

record Vcs =
  vcs_type :: VcsType
  revision :: string

text \<open>The \<open>tool\<close> member of a trace record.\<close>

record ToolInfo =
  tool_name :: string
  tool_version :: "string option"

text \<open>\<open>TraceRecord\<close>; its member \<open>id\<close> is named \<open>trace_id\<close> here.\<close>

record TraceRecord =
  version :: string
  trace_id :: string
  timestamp :: string
  vcs :: "Vcs option"
  tool :: "ToolInfo option"
  files :: "FileEntry list"
  metadata :: "(string \<times> json) list option"

text \<open>The \<open>opts\<close> argument of \<open>createTrace\<close>; \<open>None\<close> is an absent member (for
  \<open>transcript\<close> also \<open>null\<close>).\<close>

record TraceOptions =
  opt_model :: "string option"
  opt_rangePositions :: "RangePosition list option"
  opt_transcript :: "string option"
  opt_metadata :: "(string \<times> json) list option"

text \<open>
  What the trace store reads from its process: the three environment variables, the
  outcome of \<open>git rev-parse --show-toplevel\<close> and, for a working directory, of
  \<open>git rev-parse HEAD\<close> (each throws or returns its output), the result of
  \<open>crypto.randomUUID()\<close> and that of \<open>new Date().toISOString()\<close>.
\<close>

record environment =
  CURSOR_PROJECT_DIR :: "string option"
  CLAUDE_PROJECT_DIR :: "string option"
  CURSOR_VERSION :: "string option"
  git_show_toplevel :: "exn + string"
  git_rev_parse_HEAD :: "string \<Rightarrow> exn + string"
  randomUUID :: string
  toISOString_now :: string

text \<open>\<open>getWorkspaceRoot\<close>. The last operand \<open>process.cwd()\<close> of the \<open>??\<close> chain is
  never reached: \<open>trim\<close> returns a string, and a failing \<open>git\<close> throws.\<close>

definition getWorkspaceRoot :: "environment \<Rightarrow> exn + string" where
  "getWorkspaceRoot env =
     (case CURSOR_PROJECT_DIR env of
        Some d \<Rightarrow> Inr d
      | None \<Rightarrow>
          (case CLAUDE_PROJECT_DIR env of
             Some d \<Rightarrow> Inr d
           | None \<Rightarrow>
               (case git_show_toplevel env of
                  Inl e \<Rightarrow> Inl e
                | Inr out \<Rightarrow> Inr (trim out))))"

definition getToolInfo :: "environment \<Rightarrow> ToolInfo" where
  "getToolInfo env =
     (case CURSOR_VERSION env of
        Some (c # cs) \<Rightarrow> \<lparr>tool_name = ''cursor'', tool_version = Some (c # cs)\<rparr>
      | _ \<Rightarrow>
          (case CLAUDE_PROJECT_DIR env of
             Some (c # cs) \<Rightarrow> \<lparr>tool_name = ''claude-code'', tool_version = None\<rparr>
           | _ \<Rightarrow> \<lparr>tool_name = ''unknown'', tool_version = None\<rparr>))"

definition getVcsInfo :: "environment \<Rightarrow> string \<Rightarrow> Vcs option" where
  "getVcsInfo env cwd =
     (case git_rev_parse_HEAD env cwd of
        Inl e \<Rightarrow> None
      | Inr out \<Rightarrow> Some \<lparr>vcs_type = Git, revision = trim out\<rparr>)"

subsection \<open>Paths\<close>

text \<open>The pieces of a path between its \<open>/\<close> separators.\<close>

fun splitSlash :: "string \<Rightarrow> string list" where
  "splitSlash [] = [[]]"
| "splitSlash (c # cs) =
     (if c = CHR ''/'' then [] # splitSlash cs
      else (case splitSlash cs of [] \<Rightarrow> [[c]] | s # ss \<Rightarrow> (c # s) # ss))"

text \<open>
  \<open>normalizeString\<close> of Node's \<open>path\<close> module on the pieces of a path, with the
  segments kept so far: empty pieces and \<open>.\<close> are dropped, \<open>..\<close> removes the segment
  before it, and where there is none to remove it is kept if \<open>allowAboveRoot\<close> and
  dropped otherwise.
\<close>

fun normalizeSegments :: "bool \<Rightarrow> string list \<Rightarrow> string list \<Rightarrow> string list" where
  "normalizeSegments allowAboveRoot kept [] = kept"
| "normalizeSegments allowAboveRoot kept (s # ss) =
     (if s = [] \<or> s = ''.'' then normalizeSegments allowAboveRoot kept ss
      else if s = ''..'' then
        (if kept \<noteq> [] \<and> last kept \<noteq> ''..'' then
           normalizeSegments allowAboveRoot (butlast kept) ss
         else if allowAboveRoot then normalizeSegments allowAboveRoot (kept @ [''..'']) ss
         else normalizeSegments allowAboveRoot kept ss)
      else normalizeSegments allowAboveRoot (kept @ [s]) ss)"

text \<open>The segments of an absolute path once resolved.\<close>

definition segments :: "string \<Rightarrow> string list" where
  "segments p = normalizeSegments False [] (splitSlash p)"

fun dropCommon :: "string list \<Rightarrow> string list \<Rightarrow> string list \<times> string list" where
  "dropCommon (x # xs) (y # ys) = (if x = y then dropCommon xs ys else (x # xs, y # ys))"
| "dropCommon xs ys = (xs, ys)"

fun joinSlash :: "string list \<Rightarrow> string" where
  "joinSlash [] = []"
| "joinSlash [s] = s"
| "joinSlash (s # t # ss) = s @ ''/'' @ joinSlash (t # ss)"

text \<open>
  \<open>path.relative(from, to)\<close> of Node's \<open>path\<close> module, which is not part of the
  repository: modelled from its documentation, for absolute POSIX paths. Both paths are
  resolved, the leading segments they share are dropped, every remaining segment of
  \<open>from\<close> becomes \<open>..\<close>, and the remaining segments of \<open>to\<close> follow. Node resolves a path
  that is not absolute against \<open>process.cwd()\<close>; here such a path is read from \<open>/\<close>.
\<close>

definition relative :: "string \<Rightarrow> string \<Rightarrow> string" where
  "relative from to =
     (case dropCommon (segments from) (segments to) of
        (up, down) \<Rightarrow> joinSlash (map (\<lambda>s. ''..'') up @ down))"

definition toRelativePath :: "string \<Rightarrow> string \<Rightarrow> string" where
  "toRelativePath absolutePath rootDir =
     (if startsWith absolutePath rootDir then relative rootDir absolutePath else absolutePath)"

text \<open>A path falls under a root when it is the root or continues it after a separator.\<close>

definition underRoot :: "string \<Rightarrow> string \<Rightarrow> bool" where
  "underRoot p rootDir = (p = rootDir \<or> prefix (rootDir @ ''/'') p)"

subsection \<open>Building a trace record\<close>

text \<open>\<open>createTrace\<close>. It throws when \<open>getWorkspaceRoot\<close> does.\<close>

definition createTrace ::
  "environment \<Rightarrow> ContributorType \<Rightarrow> string \<Rightarrow> TraceOptions \<Rightarrow> exn + TraceRecord" where
  "createTrace env type filePath opts =
     (case getWorkspaceRoot env of
        Inl e \<Rightarrow> Inl e
      | Inr rootDir \<Rightarrow>
          let modelId = normalizeModelId (opt_model opts);
              conversationUrl =
                (case opt_transcript opts of
                   Some (c # cs) \<Rightarrow> Some (''file://'' @ c # cs)
                 | _ \<Rightarrow> None);
              ranges =
                (case opt_rangePositions opts of
                   Some (p # ps) \<Rightarrow>
                     map (\<lambda>pos. \<lparr>start_line = start_line pos, end_line = end_line pos,
                                  content_hash = None, range_contributor = None\<rparr>) (p # ps)
                 | _ \<Rightarrow>
                     [\<lparr>start_line = 1, end_line = 1,
                       content_hash = None, range_contributor = None\<rparr>]);
              conversation =
                \<lparr>url = conversationUrl,
                 contributor = Some \<lparr>contributor_type = type, model_id = modelId\<rparr>,
                 ranges = ranges,
                 related = None\<rparr>
          in Inr \<lparr>version = ''1.0'',
                  trace_id = randomUUID env,
                  timestamp = toISOString_now env,
                  vcs = getVcsInfo env rootDir,
                  tool = Some (getToolInfo env),
                  files = [\<lparr>path = toRelativePath filePath rootDir,
                            conversations = [conversation]\<rparr>],
                  metadata = opt_metadata opts\<rparr>)"

subsection \<open>The append-only store\<close>

definition TRACE_PATH :: string where
  "TRACE_PATH = ''.agent-trace/traces.jsonl''"

text \<open>\<open>path.normalize\<close> of Node's \<open>path\<close> module (POSIX), modelled from its
  documentation: the segments are normalised, a leading and a final separator are kept,
  and the empty result is \<open>.\<close>.\<close>

definition normalize :: "string \<Rightarrow> string" where
  "normalize p =
     (if p = [] then ''.''
      else
        let isAbsolute = (hd p = CHR ''/'');
            trailingSeparator = (last p = CHR ''/'');
            body = joinSlash (normalizeSegments (\<not> isAbsolute) [] (splitSlash p))
        in if body = [] then
             (if isAbsolute then ''/'' else if trailingSeparator then ''./'' else ''.'')
           else (if isAbsolute then ''/'' else []) @ body
                @ (if trailingSeparator then ''/'' else []))"

text \<open>\<open>path.join(root, rel)\<close> of Node's \<open>path\<close> module (POSIX), modelled from its
  documentation: the arguments that are not empty, joined by a separator and
  normalised.\<close>

definition joinPath :: "string \<Rightarrow> string \<Rightarrow> string" where
  "joinPath rootDir rel =
     (if rootDir = [] \<and> rel = [] then ''.''
      else if rootDir = [] then normalize rel
      else if rel = [] then normalize rootDir
      else normalize (rootDir @ ''/'' @ rel))"

text \<open>
  The file-system calls of \<open>appendTrace\<close> on a file system of type \<open>'w\<close>: \<open>existsSync\<close>
  answers, \<open>mkdirSync\<close> (with \<open>recursive: true\<close>) and \<open>appendFileSync\<close> throw or return
  the file system they leave.
\<close>

record 'w fs_write =
  existsSync :: "'w \<Rightarrow> string \<Rightarrow> bool"
  mkdirSync :: "'w \<Rightarrow> string \<Rightarrow> exn + 'w"
  appendFileSync :: "'w \<Rightarrow> string \<Rightarrow> string \<Rightarrow> exn + 'w"

text \<open>\<open>appendTrace\<close>, with \<open>JSON.stringify\<close> as \<open>JSON_stringify\<close>: \<open>Inl e\<close> when it throws
  \<open>e\<close>, else the file system it leaves.\<close>

definition appendTrace ::
  "'w fs_write \<Rightarrow> environment \<Rightarrow> (TraceRecord \<Rightarrow> string) \<Rightarrow> TraceRecord \<Rightarrow> 'w \<Rightarrow> exn + 'w" where
  "appendTrace ops env JSON_stringify trace w =
     (case getWorkspaceRoot env of
        Inl e \<Rightarrow> Inl e
      | Inr rootDir \<Rightarrow>
          let filePath = joinPath rootDir TRACE_PATH;
              dir = joinPath rootDir ''.agent-trace''
          in case (if \<not> existsSync ops w dir then mkdirSync ops w dir else Inr w) of
               Inl e \<Rightarrow> Inl e
             | Inr w' \<Rightarrow> appendFileSync ops w' filePath (JSON_stringify trace @ [CHR 0x0A]))"

subsection \<open>Example process and store\<close>

text \<open>A process started by Cursor in the workspace \<open>/home/user/project\<close>.\<close>

definition cursorEnv :: environment where
  "cursorEnv =
     \<lparr>CURSOR_PROJECT_DIR = Some ''/home/user/project'',
      CLAUDE_PROJECT_DIR = None,
      CURSOR_VERSION = Some ''1.0.0'',
      git_show_toplevel = Inr ''/home/user/project'',
      git_rev_parse_HEAD = (\<lambda>cwd. Inr ''0123abc''),
      randomUUID = ''00000000-0000-4000-8000-000000000000'',
      toISOString_now = ''2026-01-01T00:00:00.000Z''\<rparr>"

text \<open>A store kept as the list of its directories and of its files with their
  contents, in which \<open>mkdirSync\<close> and \<open>appendFileSync\<close> fail when the store is
  read-only.\<close>

record store =
  read_only :: bool
  directories :: "string list"
  contents :: "(string \<times> string) list"

definition storeOps :: "store fs_write" where
  "storeOps =
     \<lparr>existsSync = (\<lambda>w p. p \<in> set (directories w) \<or> p \<in> fst ` set (contents w)),
      mkdirSync = (\<lambda>w p.
        if read_only w then Inl (SystemError ''EROFS'')
        else Inr (w\<lparr>directories := p # directories w\<rparr>)),
      appendFileSync = (\<lambda>w p s.
        if read_only w then Inl (SystemError ''EROFS'')
        else Inr (w\<lparr>contents :=
               (p, (case map_of (contents w) p of None \<Rightarrow> [] | Some old \<Rightarrow> old) @ s)
               # filter (\<lambda>(q, c). q \<noteq> p) (contents w)\<rparr>))\<rparr>"

text \<open>A trace record for the examples of the store.\<close>

definition exampleTrace :: TraceRecord where
  "exampleTrace =
     \<lparr>version = ''1.0'',
      trace_id = ''00000000-0000-4000-8000-000000000000'',
      timestamp = ''2026-01-01T00:00:00.000Z'',
      vcs = None,
      tool = Some \<lparr>tool_name = ''cursor'', tool_version = Some ''1.0.0''\<rparr>,
      files = [\<lparr>path = ''src/file.ts'',
                conversations =
                  [\<lparr>url = None,
                    contributor = Some \<lparr>contributor_type = Ai, model_id = None\<rparr>,
                    ranges = [\<lparr>start_line = 1, end_line = 1, content_hash = None,
                               range_contributor = None\<rparr>],
                    related = None\<rparr>]\<rparr>],
      metadata = None\<rparr>"

section \<open>Properties of the string operations\<close>

lemma indexOf_single_iff: "indexOf s [c] \<noteq> None \<longleftrightarrow> c \<in> set s"
  by (induction s) auto

lemma includes_slash: "includes_str s ''/'' \<longleftrightarrow> CHR ''/'' \<in> set s"
  unfolding includes_str_def by (rule indexOf_single_iff)

lemma split_nl_nonempty: "split_nl s \<noteq> []"
  by (induction s) (auto split: list.splits)

lemma length_split_nl_pos: "0 < length (split_nl s)"
  using split_nl_nonempty by simp

section \<open>Properties of model identifier normalisation\<close>

lemma prefixLoop_prefixes:
  "prefixLoop prefixes m =
     (if prefix ''claude-'' m then ''anthropic/'' @ m
      else if prefix ''gpt-'' m then ''openai/'' @ m
      else if prefix ''o1'' m then ''openai/'' @ m
      else if prefix ''o3'' m then ''openai/'' @ m
      else if prefix ''gemini-'' m then ''google/'' @ m
      else m)"
  by (simp add: prefixes_def startsWith_def)

lemma prefixLoop_cases:
  "prefixLoop ps m = m \<or> (\<exists>provider. prefixLoop ps m = provider @ ''/'' @ m)"
  by (induction ps m rule: prefixLoop.induct) auto

text \<open>
  C7. \<open>normalizeModelId\<close>: undefined or empty input gives undefined; an input containing
  \<open>/\<close> is returned unchanged; otherwise the first matching prefix of the ordered table
  (\<open>claude-\<close>, \<open>gpt-\<close>, \<open>o1\<close>, \<open>o3\<close>, \<open>gemini-\<close>) qualifies the input with its provider;
  with no matching prefix the input is returned unchanged. In particular
  \<open>claude-3-opus\<close> becomes \<open>anthropic/claude-3-opus\<close> and \<open>mistral-large\<close> stays.
\<close>

theorem normalizeModelId_table:
  "normalizeModelId model =
     (case model of
        None \<Rightarrow> None
      | Some m \<Rightarrow>
          if m = [] then None
          else if CHR ''/'' \<in> set m then Some m
          else if prefix ''claude-'' m then Some (''anthropic/'' @ m)
          else if prefix ''gpt-'' m then Some (''openai/'' @ m)
          else if prefix ''o1'' m then Some (''openai/'' @ m)
          else if prefix ''o3'' m then Some (''openai/'' @ m)
          else if prefix ''gemini-'' m then Some (''google/'' @ m)
          else Some m)
   \<and> normalizeModelId (Some ''claude-3-opus'') = Some ''anthropic/claude-3-opus''
   \<and> normalizeModelId (Some ''mistral-large'') = Some ''mistral-large''"
proof (intro conjI)
  show "normalizeModelId model =
     (case model of
        None \<Rightarrow> None
      | Some m \<Rightarrow>
          if m = [] then None
          else if CHR ''/'' \<in> set m then Some m
          else if prefix ''claude-'' m then Some (''anthropic/'' @ m)
          else if prefix ''gpt-'' m then Some (''openai/'' @ m)
          else if prefix ''o1'' m then Some (''openai/'' @ m)
          else if prefix ''o3'' m then Some (''openai/'' @ m)
          else if prefix ''gemini-'' m then Some (''google/'' @ m)
          else Some m)"
    by (simp add: normalizeModelId_def includes_slash prefixLoop_prefixes split: option.split)
  show "normalizeModelId (Some ''claude-3-opus'') = Some ''anthropic/claude-3-opus''"
    by (simp add: normalizeModelId_def includes_slash prefixLoop_prefixes)
  show "normalizeModelId (Some ''mistral-large'') = Some ''mistral-large''"
    by (simp add: normalizeModelId_def includes_slash prefixLoop_prefixes)
qed

text \<open>
  C10. \<open>normalizeModelId\<close> is idempotent on every input: a provider-qualified result
  contains \<open>/\<close> and passes through unchanged, an unqualified result matched no prefix
  and matches none again, and undefined stays undefined.
\<close>

theorem normalizeModelId_idempotent:
  "normalizeModelId (normalizeModelId model) = normalizeModelId model"
proof (cases model)
  case None
  then show ?thesis by (simp add: normalizeModelId_def)
next
  case (Some m)
  show ?thesis
  proof (cases "m = [] \<or> includes_str m ''/''")
    case True
    with Some show ?thesis by (auto simp: normalizeModelId_def)
  next
    case False
    then have m: "m \<noteq> []" and noslash: "\<not> includes_str m ''/''" by auto
    from prefixLoop_cases [of prefixes m] show ?thesis
    proof
      assume same: "prefixLoop prefixes m = m"
      with Some m noslash show ?thesis by (simp add: normalizeModelId_def)
    next
      assume "\<exists>provider. prefixLoop prefixes m = provider @ ''/'' @ m"
      then obtain provider where q: "prefixLoop prefixes m = provider @ ''/'' @ m" ..
      have "includes_str (provider @ ''/'' @ m) ''/''"
        by (simp add: includes_slash)
      with Some m noslash q show ?thesis by (simp add: normalizeModelId_def)
    qed
  qed
qed

section \<open>Properties of the range diff engine\<close>

lemma findAhead_Some: "findAhead ol line k = Some j \<Longrightarrow> k \<le> j \<and> j < length ol \<and> ol ! j = line"
  apply (induction ol line k rule: findAhead.induct)
  apply (subst (asm) findAhead.simps)
  apply (auto split: if_splits)
  done

lemma diffLoop_same: "ol = nl \<Longrightarrow> oi = ni \<Longrightarrow> diffLoop ol nl oi ni ch = ch"
  apply (induction ol nl oi ni ch rule: diffLoop.induct)
  apply (subst diffLoop.simps)
  apply auto
  done

lemma diffLoop_sorted:
  "sorted_wrt (<) ch \<Longrightarrow> \<forall>x\<in>set ch. x < ni \<Longrightarrow> sorted_wrt (<) (diffLoop ol nl oi ni ch)"
  apply (induction ol nl oi ni ch rule: diffLoop.induct)
  apply (subst diffLoop.simps)
  apply (auto simp: sorted_wrt_append less_Suc_eq split: option.splits)
  done

lemma diffToFindChangedLines_same: "diffToFindChangedLines s s = []"
  by (simp add: diffToFindChangedLines_def diffLoop_same)

lemma diffToFindChangedLines_sorted: "sorted_wrt (<) (diffToFindChangedLines a b)"
  by (simp add: diffToFindChangedLines_def diffLoop_sorted)

lemma mergeLoop_ascending:
  "sorted_wrt (<) cs \<Longrightarrow> 0 < i \<Longrightarrow> i \<le> length cs \<Longrightarrow> rangeEnd = cs ! (i - 1) \<Longrightarrow>
   ascending rs \<Longrightarrow> \<forall>r\<in>set rs. end_line r < int (startLine + rangeStart) \<Longrightarrow>
   rangeStart \<le> rangeEnd \<Longrightarrow>
   ascending (mergeLoop startLine cs i rangeStart rangeEnd rs)"
proof (induction startLine cs i rangeStart rangeEnd rs rule: mergeLoop.induct)
  case (1 startLine cs i rangeStart rangeEnd rs)
  show ?case
  proof (cases "i < length cs")
    case False
    then show ?thesis
      using "1.prems" by (subst mergeLoop.simps) (simp add: ascending_def sorted_wrt_append)
  next
    case True
    have lt: "rangeEnd < cs ! i"
      using "1.prems"(1,2,4) True sorted_wrt_nth_less [of "(<)" cs "i - 1" i] by simp
    show ?thesis
    proof (cases "cs ! i = rangeEnd + 1")
      case adj: True
      have "ascending (mergeLoop startLine cs (Suc i) rangeStart (cs ! i) rs)"
        using "1.IH"(1) [OF True adj] "1.prems" True lt by simp
      then show ?thesis using True adj by (subst mergeLoop.simps) simp
    next
      case gap: False
      let ?rs' = "rs @ [\<lparr>start_line = int (startLine + rangeStart),
                         end_line = int (startLine + rangeEnd)\<rparr>]"
      have a: "ascending ?rs'"
        using "1.prems" by (simp add: ascending_def sorted_wrt_append)
      have b: "\<forall>r\<in>set ?rs'. end_line r < int (startLine + cs ! i)"
        using "1.prems" lt by auto
      have "ascending (mergeLoop startLine cs (Suc i) (cs ! i) (cs ! i) ?rs')"
        using "1.IH"(2) [OF True gap] "1.prems"(1) True a b by simp
      then show ?thesis using True gap by (subst mergeLoop.simps) simp
    qed
  qed
qed

lemma mergeLoop_bounds:
  "sorted_wrt (<) cs \<Longrightarrow> 0 < i \<Longrightarrow> i \<le> length cs \<Longrightarrow> rangeEnd = cs ! (i - 1) \<Longrightarrow>
   \<forall>r\<in>set rs. int startLine \<le> start_line r \<and> start_line r \<le> end_line r \<Longrightarrow>
   rangeStart \<le> rangeEnd \<Longrightarrow>
   \<forall>r\<in>set (mergeLoop startLine cs i rangeStart rangeEnd rs).
      int startLine \<le> start_line r \<and> start_line r \<le> end_line r"
proof (induction startLine cs i rangeStart rangeEnd rs rule: mergeLoop.induct)
  case (1 startLine cs i rangeStart rangeEnd rs)
  show ?case
  proof (cases "i < length cs")
    case False
    then show ?thesis
      using "1.prems" by (subst mergeLoop.simps) auto
  next
    case True
    show ?thesis
    proof (cases "cs ! i = rangeEnd + 1")
      case adj: True
      have "\<forall>r\<in>set (mergeLoop startLine cs (Suc i) rangeStart (cs ! i) rs).
              int startLine \<le> start_line r \<and> start_line r \<le> end_line r"
        using "1.IH"(1) [OF True adj] "1.prems" True adj by simp
      then show ?thesis using True adj by (subst mergeLoop.simps) simp
    next
      case gap: False
      let ?rs' = "rs @ [\<lparr>start_line = int (startLine + rangeStart),
                         end_line = int (startLine + rangeEnd)\<rparr>]"
      have b: "\<forall>r\<in>set ?rs'. int startLine \<le> start_line r \<and> start_line r \<le> end_line r"
        using "1.prems" by auto
      have "\<forall>r\<in>set (mergeLoop startLine cs (Suc i) (cs ! i) (cs ! i) ?rs').
              int startLine \<le> start_line r \<and> start_line r \<le> end_line r"
        using "1.IH"(2) [OF True gap] "1.prems"(1) True b by simp
      then show ?thesis using True gap by (subst mergeLoop.simps) simp
    qed
  qed
qed

lemma computeRangePositions_Nil: "computeRangePositions [] fc = []"
  by (simp add: computeRangePositions_def)

lemma computeRangePositions_single:
  "computeRangePositions [e] fc = (if new_string e = [] then [] else editRanges fc e)"
  by (simp add: computeRangePositions_def)

lemma computeRangePositions_append:
  "computeRangePositions (a @ b) fc = computeRangePositions a fc @ computeRangePositions b fc"
  by (simp add: computeRangePositions_def)

lemma computeRangePositions_concat:
  "computeRangePositions edits fc = concat (map (\<lambda>e. computeRangePositions [e] fc) edits)"
  by (induction edits) (simp_all add: computeRangePositions_def)

lemma ascending_imp_disjoint: "ascending rs \<Longrightarrow> pairwise_disjoint rs"
  unfolding ascending_def
  by (induction rs) (auto simp: overlaps_def list_all_iff)

lemma lineAt_pos: "0 < lineAt fc idx"
  unfolding lineAt_def by (rule length_split_nl_pos)

lemma diffCase_Some:
  assumes "diffCase fc e = Some rs"
  shows "ascending rs \<and> (\<forall>r\<in>set rs. 1 \<le> start_line r \<and> start_line r \<le> end_line r)"
proof -
  from assms obtain content idx where
    idx: "indexOf content (new_string e) = Some idx" and
    rs: "rs = (let startLine = lineAt content idx;
                   changedOffsets = diffToFindChangedLines (old_string e) (new_string e)
               in if length changedOffsets = 0 then []
                  else mergeLoop startLine changedOffsets 1
                         (changedOffsets ! 0) (changedOffsets ! 0) [])"
    by (auto simp: diffCase_def Let_def split: option.splits if_splits)
  define cs where "cs = diffToFindChangedLines (old_string e) (new_string e)"
  define sl where "sl = lineAt content idx"
  have sorted: "sorted_wrt (<) cs"
    unfolding cs_def by (rule diffToFindChangedLines_sorted)
  have sl: "0 < sl" unfolding sl_def by (rule lineAt_pos)
  show ?thesis
  proof (cases "cs = []")
    case True
    with rs show ?thesis by (simp add: cs_def ascending_def)
  next
    case False
    then have len: "1 \<le> length cs" by (cases cs) auto
    have eq: "rs = mergeLoop sl cs 1 (cs ! 0) (cs ! 0) []"
      using rs False by (simp add: cs_def sl_def Let_def)
    have a: "ascending rs"
      unfolding eq using sorted len
      by (intro mergeLoop_ascending) (simp_all add: ascending_def)
    have "\<forall>r\<in>set rs. int sl \<le> start_line r \<and> start_line r \<le> end_line r"
      unfolding eq using sorted len
      by (intro mergeLoop_bounds) simp_all
    with sl a show ?thesis by fastforce
  qed
qed

lemma fallbackCase_range:
  "\<exists>r. fallbackCase fc e = [r] \<and> 1 \<le> start_line r \<and> start_line r \<le> end_line r"
  using length_split_nl_pos [of "new_string e"] lineAt_pos
  by (auto simp: fallbackCase_def Let_def Suc_le_eq split: option.splits)

lemma editRanges_ascending: "ascending (editRanges fc e)"
proof (cases "edit_range e")
  case (Some r)
  then show ?thesis by (simp add: editRanges_def ascending_def)
next
  case None
  show ?thesis
  proof (cases "diffCase fc e")
    case (Some rs)
    with None diffCase_Some [OF Some] show ?thesis by (simp add: editRanges_def)
  next
    case nodiff: None
    from fallbackCase_range [of fc e] obtain r where "fallbackCase fc e = [r]" by blast
    with None nodiff show ?thesis by (simp add: editRanges_def ascending_def)
  qed
qed

lemma editRanges_bounds:
  assumes "edit_range e = None"
  shows "\<forall>r\<in>set (editRanges fc e). 1 \<le> start_line r \<and> start_line r \<le> end_line r"
proof (cases "diffCase fc e")
  case (Some rs)
  with assms diffCase_Some [OF Some] show ?thesis by (simp add: editRanges_def)
next
  case None
  from fallbackCase_range [of fc e] obtain r where
    "fallbackCase fc e = [r]" "1 \<le> start_line r" "start_line r \<le> end_line r" by blast
  with assms None show ?thesis by (simp add: editRanges_def)
qed

lemma editRanges_explicit:
  "edit_range e = Some x \<Longrightarrow>
   editRanges fc e = [\<lparr>start_line = start_line_number x, end_line = end_line_number x\<rparr>]"
  by (simp add: editRanges_def)

lemma ascending_Nil: "ascending []"
  by (simp add: ascending_def)

subsection \<open>The claims about the range diff engine\<close>

text \<open>
  C1, as stated, at its own input: for the edit from \<open>line1\nline2\nline3\<close> to
  \<open>line1\nNEW\nline3\<close> and no file content, \<open>computeRangePositions\<close> does not mark a
  single line.
\<close>

theorem computeRangePositions_no_file_not_single_line:
  "\<not> single_line (computeRangePositions
      [\<lparr>old_string = ''line1'' @ [CHR 0x0A] @ ''line2'' @ [CHR 0x0A] @ ''line3'',
        new_string = ''line1'' @ [CHR 0x0A] @ ''NEW'' @ [CHR 0x0A] @ ''line3'',
        edit_range = None\<rparr>] None)"
  by (simp add: computeRangePositions_def editRanges_def diffCase_def fallbackCase_def
      single_line_def)

text \<open>
  C1, amended. For that edit the line diff \<open>diffToFindChangedLines\<close> finds the single
  changed offset 1; \<open>computeRangePositions\<close> without file content falls back to the
  whole of the new text, lines 1 to 3; with the file content \<open>line1\nNEW\nline3\<close> it
  returns exactly the range from line 2 to line 2.
\<close>

theorem computeRangePositions_line_example:
  "diffToFindChangedLines
      (''line1'' @ [CHR 0x0A] @ ''line2'' @ [CHR 0x0A] @ ''line3'')
      (''line1'' @ [CHR 0x0A] @ ''NEW'' @ [CHR 0x0A] @ ''line3'') = [1]
   \<and> computeRangePositions
      [\<lparr>old_string = ''line1'' @ [CHR 0x0A] @ ''line2'' @ [CHR 0x0A] @ ''line3'',
        new_string = ''line1'' @ [CHR 0x0A] @ ''NEW'' @ [CHR 0x0A] @ ''line3'',
        edit_range = None\<rparr>] None
     = [\<lparr>start_line = 1, end_line = 3\<rparr>]
   \<and> computeRangePositions
      [\<lparr>old_string = ''line1'' @ [CHR 0x0A] @ ''line2'' @ [CHR 0x0A] @ ''line3'',
        new_string = ''line1'' @ [CHR 0x0A] @ ''NEW'' @ [CHR 0x0A] @ ''line3'',
        edit_range = None\<rparr>]
      (Some (''line1'' @ [CHR 0x0A] @ ''NEW'' @ [CHR 0x0A] @ ''line3''))
     = [\<lparr>start_line = 2, end_line = 2\<rparr>]"
proof (intro conjI)
  show "diffToFindChangedLines
      (''line1'' @ [CHR 0x0A] @ ''line2'' @ [CHR 0x0A] @ ''line3'')
      (''line1'' @ [CHR 0x0A] @ ''NEW'' @ [CHR 0x0A] @ ''line3'') = [1]"
    by (simp add: diffToFindChangedLines_def diffLoop.simps findAhead.simps)
  show "computeRangePositions
      [\<lparr>old_string = ''line1'' @ [CHR 0x0A] @ ''line2'' @ [CHR 0x0A] @ ''line3'',
        new_string = ''line1'' @ [CHR 0x0A] @ ''NEW'' @ [CHR 0x0A] @ ''line3'',
        edit_range = None\<rparr>] None
     = [\<lparr>start_line = 1, end_line = 3\<rparr>]"
    by (simp add: computeRangePositions_def editRanges_def diffCase_def fallbackCase_def)
  show "computeRangePositions
      [\<lparr>old_string = ''line1'' @ [CHR 0x0A] @ ''line2'' @ [CHR 0x0A] @ ''line3'',
        new_string = ''line1'' @ [CHR 0x0A] @ ''NEW'' @ [CHR 0x0A] @ ''line3'',
        edit_range = None\<rparr>]
      (Some (''line1'' @ [CHR 0x0A] @ ''NEW'' @ [CHR 0x0A] @ ''line3''))
     = [\<lparr>start_line = 2, end_line = 2\<rparr>]"
    by (simp add: computeRangePositions_def editRanges_def diffCase_def fallbackCase_def
        lineAt_def diffToFindChangedLines_def diffLoop.simps findAhead.simps mergeLoop.simps)
qed

text \<open>
  C2, as stated, fails for an edit whose new text is empty: the edit is filtered out
  before its explicit range is looked at, and nothing is emitted for it.
\<close>

theorem computeRangePositions_explicit_range_dropped:
  "computeRangePositions
      [\<lparr>old_string = ''old'', new_string = '''',
        edit_range = Some \<lparr>start_line_number = 10, end_line_number = 15,
                           start_column = 1, end_column = 10\<rparr>\<rparr>] None = []
   \<and> computeRangePositions
      [\<lparr>old_string = ''old'', new_string = '''',
        edit_range = Some \<lparr>start_line_number = 10, end_line_number = 15,
                           start_column = 1, end_column = 10\<rparr>\<rparr>] None
     \<noteq> [\<lparr>start_line = 10, end_line = 15\<rparr>]"
  by (simp add: computeRangePositions_def)

text \<open>
  C2, amended. An edit that carries an explicit range and whose new text is not empty
  contributes exactly that range, \<open>start_line_number\<close> to \<open>end_line_number\<close>, at its place
  in the output, whatever its old and new text and whether or not file content is
  supplied; no diff is computed for it.
\<close>

theorem computeRangePositions_explicit_range:
  "edit_range e = Some x \<Longrightarrow> new_string e \<noteq> [] \<Longrightarrow>
   computeRangePositions (before @ e # after) fileContent =
     computeRangePositions before fileContent
     @ \<lparr>start_line = start_line_number x, end_line = end_line_number x\<rparr>
     # computeRangePositions after fileContent"
proof -
  assume x: "edit_range e = Some x" and new: "new_string e \<noteq> []"
  have "computeRangePositions (before @ [e] @ after) fileContent =
          computeRangePositions before fileContent
          @ computeRangePositions [e] fileContent
          @ computeRangePositions after fileContent"
    by (simp only: computeRangePositions_append)
  moreover have "computeRangePositions [e] fileContent =
          [\<lparr>start_line = start_line_number x, end_line = end_line_number x\<rparr>]"
    using x new by (simp add: computeRangePositions_single editRanges_explicit)
  ultimately show ?thesis by simp
qed

theorem computeRangePositions_explicit_range_witness:
  "computeRangePositions
      [\<lparr>old_string = ''old'', new_string = ''new content'' @ [CHR 0x0A] @ ''line 2'',
        edit_range = Some \<lparr>start_line_number = 10, end_line_number = 15,
                           start_column = 1, end_column = 10\<rparr>\<rparr>]
      (Some ''unrelated'')
     = [\<lparr>start_line = 10, end_line = 15\<rparr>]"
  using computeRangePositions_explicit_range
    [of "\<lparr>old_string = ''old'', new_string = ''new content'' @ [CHR 0x0A] @ ''line 2'',
          edit_range = Some \<lparr>start_line_number = 10, end_line_number = 15,
                             start_column = 1, end_column = 10\<rparr>\<rparr>"
        "\<lparr>start_line_number = 10, end_line_number = 15, start_column = 1, end_column = 10\<rparr>"
        "[]" "[]" "Some ''unrelated''"]
  by (simp add: computeRangePositions_Nil)

text \<open>
  C3, as stated, fails: two edits that both fall back to line 1 give two ranges that
  overlap.
\<close>

theorem computeRangePositions_overlap:
  "\<not> pairwise_disjoint (computeRangePositions
      [\<lparr>old_string = '''', new_string = ''a'', edit_range = None\<rparr>,
       \<lparr>old_string = '''', new_string = ''b'', edit_range = None\<rparr>] None)"
  by (simp add: computeRangePositions_def editRanges_def diffCase_def fallbackCase_def
      overlaps_def)

text \<open>
  C3, amended. The output of \<open>computeRangePositions\<close> is the concatenation, in the order
  of the edits, of the outputs for the single edits. The ranges produced for any one edit
  are in ascending order, each ending before the next starts, hence pairwise
  non-overlapping. Every range produced for an edit without an explicit range satisfies
  \<open>1 \<le> start_line \<le> end_line\<close>; so every output range satisfies
  \<open>start_line \<le> end_line\<close> as soon as every explicit range supplied does.
\<close>

theorem computeRangePositions_per_edit:
  "computeRangePositions edits fc = concat (map (\<lambda>e. computeRangePositions [e] fc) edits)
   \<and> ascending (computeRangePositions [e] fc)
   \<and> pairwise_disjoint (computeRangePositions [e] fc)
   \<and> (edit_range e = None \<longrightarrow>
        (\<forall>r\<in>set (computeRangePositions [e] fc). 1 \<le> start_line r \<and> start_line r \<le> end_line r))
   \<and> ((\<forall>d\<in>set edits. \<forall>x. edit_range d = Some x \<longrightarrow> start_line_number x \<le> end_line_number x) \<longrightarrow>
        (\<forall>r\<in>set (computeRangePositions edits fc). start_line r \<le> end_line r))"
proof (intro conjI impI)
  show "computeRangePositions edits fc = concat (map (\<lambda>e. computeRangePositions [e] fc) edits)"
    by (rule computeRangePositions_concat)
  show asc: "ascending (computeRangePositions [e] fc)"
    by (simp add: computeRangePositions_single editRanges_ascending ascending_Nil)
  show "pairwise_disjoint (computeRangePositions [e] fc)"
    using asc by (rule ascending_imp_disjoint)
  show "\<forall>r\<in>set (computeRangePositions [e] fc). 1 \<le> start_line r \<and> start_line r \<le> end_line r"
    if "edit_range e = None"
    using editRanges_bounds [OF that, of fc] by (simp add: computeRangePositions_single)
  show "\<forall>r\<in>set (computeRangePositions edits fc). start_line r \<le> end_line r"
    if ok: "\<forall>d\<in>set edits. \<forall>x. edit_range d = Some x \<longrightarrow> start_line_number x \<le> end_line_number x"
  proof
    fix r assume "r \<in> set (computeRangePositions edits fc)"
    then obtain d where d: "d \<in> set edits" and r: "r \<in> set (editRanges fc d)"
      by (auto simp: computeRangePositions_def)
    show "start_line r \<le> end_line r"
    proof (cases "edit_range d")
      case None
      from editRanges_bounds [OF None, of fc] r show ?thesis by blast
    next
      case (Some x)
      with ok d have "start_line_number x \<le> end_line_number x" by blast
      with r Some show ?thesis by (simp add: editRanges_explicit)
    qed
  qed
qed

theorem computeRangePositions_per_edit_witness:
  "ascending (computeRangePositions
      [\<lparr>old_string = ''a'' @ [CHR 0x0A] @ ''b'' @ [CHR 0x0A] @ ''c'' @ [CHR 0x0A] @ ''d'',
        new_string = ''X'' @ [CHR 0x0A] @ ''b'' @ [CHR 0x0A] @ ''Y'' @ [CHR 0x0A] @ ''Z'',
        edit_range = None\<rparr>]
      (Some (''top'' @ [CHR 0x0A] @ ''X'' @ [CHR 0x0A] @ ''b'' @ [CHR 0x0A] @ ''Y''
             @ [CHR 0x0A] @ ''Z'')))
   \<and> list_all (\<lambda>r. 1 \<le> start_line r \<and> start_line r \<le> end_line r)
       (computeRangePositions
      [\<lparr>old_string = ''a'' @ [CHR 0x0A] @ ''b'' @ [CHR 0x0A] @ ''c'' @ [CHR 0x0A] @ ''d'',
        new_string = ''X'' @ [CHR 0x0A] @ ''b'' @ [CHR 0x0A] @ ''Y'' @ [CHR 0x0A] @ ''Z'',
        edit_range = None\<rparr>]
      (Some (''top'' @ [CHR 0x0A] @ ''X'' @ [CHR 0x0A] @ ''b'' @ [CHR 0x0A] @ ''Y''
             @ [CHR 0x0A] @ ''Z'')))
   \<and> computeRangePositions
      [\<lparr>old_string = ''a'' @ [CHR 0x0A] @ ''b'' @ [CHR 0x0A] @ ''c'' @ [CHR 0x0A] @ ''d'',
        new_string = ''X'' @ [CHR 0x0A] @ ''b'' @ [CHR 0x0A] @ ''Y'' @ [CHR 0x0A] @ ''Z'',
        edit_range = None\<rparr>]
      (Some (''top'' @ [CHR 0x0A] @ ''X'' @ [CHR 0x0A] @ ''b'' @ [CHR 0x0A] @ ''Y''
             @ [CHR 0x0A] @ ''Z''))
     = [\<lparr>start_line = 2, end_line = 2\<rparr>, \<lparr>start_line = 4, end_line = 5\<rparr>]"
proof -
  let ?e = "\<lparr>old_string = ''a'' @ [CHR 0x0A] @ ''b'' @ [CHR 0x0A] @ ''c'' @ [CHR 0x0A] @ ''d'',
        new_string = ''X'' @ [CHR 0x0A] @ ''b'' @ [CHR 0x0A] @ ''Y'' @ [CHR 0x0A] @ ''Z'',
        edit_range = None\<rparr>"
  let ?fc = "Some (''top'' @ [CHR 0x0A] @ ''X'' @ [CHR 0x0A] @ ''b'' @ [CHR 0x0A] @ ''Y''
             @ [CHR 0x0A] @ ''Z'')"
  have none: "edit_range ?e = None" by simp
  have ok: "\<forall>d\<in>set [?e]. \<forall>x. edit_range d = Some x \<longrightarrow> start_line_number x \<le> end_line_number x"
    by simp
  from computeRangePositions_per_edit [of "[?e]" ?fc ?e] none ok
  have "ascending (computeRangePositions [?e] ?fc)"
    and "\<forall>r\<in>set (computeRangePositions [?e] ?fc). 1 \<le> start_line r \<and> start_line r \<le> end_line r"
    by blast+
  moreover have "computeRangePositions [?e] ?fc
     = [\<lparr>start_line = 2, end_line = 2\<rparr>, \<lparr>start_line = 4, end_line = 5\<rparr>]"
    by (simp add: computeRangePositions_def editRanges_def diffCase_def fallbackCase_def
        lineAt_def diffToFindChangedLines_def diffLoop.simps findAhead.simps mergeLoop.simps)
  ultimately show ?thesis by (simp only: list_all_iff simp_thms)
qed

text \<open>
  C4, as stated, fails without file content: the edit from \<open>a\<close> to \<open>a\<close> is attributed
  line 1 by the fallback.
\<close>

theorem computeRangePositions_noop_without_file:
  "computeRangePositions [\<lparr>old_string = ''a'', new_string = ''a'', edit_range = None\<rparr>] None
     = [\<lparr>start_line = 1, end_line = 1\<rparr>]
   \<and> computeRangePositions [\<lparr>old_string = ''a'', new_string = ''a'', edit_range = None\<rparr>] None
     \<noteq> []"
  by (simp add: computeRangePositions_def editRanges_def diffCase_def fallbackCase_def)

text \<open>
  C4, amended. The line diff of a text against itself is empty, and for every edit
  without an explicit range whose old text equals its new text,
  \<open>computeRangePositions\<close> produces no range whenever the file content is supplied and
  contains the new text. Without file content the fallback attributes the whole of a
  non-empty new text, from line 1 to its number of lines.
\<close>

theorem computeRangePositions_noop_edit:
  "diffToFindChangedLines s s = []
   \<and> (old_string e = new_string e \<and> edit_range e = None
        \<and> indexOf content (new_string e) \<noteq> None
      \<longrightarrow> computeRangePositions [e] (Some content) = [])
   \<and> (old_string e = new_string e \<and> edit_range e = None \<and> new_string e \<noteq> []
      \<longrightarrow> computeRangePositions [e] None =
            [\<lparr>start_line = 1, end_line = int (length (split_nl (new_string e)))\<rparr>])"
proof (intro conjI impI)
  show "diffToFindChangedLines s s = []"
    by (rule diffToFindChangedLines_same)
  show "computeRangePositions [e] (Some content) = []"
    if h: "old_string e = new_string e \<and> edit_range e = None
        \<and> indexOf content (new_string e) \<noteq> None"
  proof (cases "new_string e = []")
    case True
    then show ?thesis by (simp add: computeRangePositions_single)
  next
    case False
    from h obtain idx where idx: "indexOf content (new_string e) = Some idx" by auto
    have "content \<noteq> []"
      using idx False by (cases content) auto
    with h False idx have "diffCase (Some content) e = Some []"
      by (simp add: diffCase_def diffToFindChangedLines_same)
    with h False show ?thesis
      by (simp add: computeRangePositions_single editRanges_def)
  qed
  show "computeRangePositions [e] None =
            [\<lparr>start_line = 1, end_line = int (length (split_nl (new_string e)))\<rparr>]"
    if "old_string e = new_string e \<and> edit_range e = None \<and> new_string e \<noteq> []"
    using that
    by (simp add: computeRangePositions_single editRanges_def diffCase_def fallbackCase_def)
qed

theorem computeRangePositions_noop_edit_witness:
  "computeRangePositions [\<lparr>old_string = ''b'', new_string = ''b'', edit_range = None\<rparr>]
      (Some (''a'' @ [CHR 0x0A] @ ''b'' @ [CHR 0x0A] @ ''c'')) = []
   \<and> computeRangePositions [\<lparr>old_string = ''b'', new_string = ''b'', edit_range = None\<rparr>] None
      = [\<lparr>start_line = 1, end_line = 1\<rparr>]"
proof -
  let ?e = "\<lparr>old_string = ''b'', new_string = ''b'', edit_range = None\<rparr>"
  have found: "indexOf (''a'' @ [CHR 0x0A] @ ''b'' @ [CHR 0x0A] @ ''c'') (new_string ?e) \<noteq> None"
    by simp
  from computeRangePositions_noop_edit
    [of "''b''" ?e "''a'' @ [CHR 0x0A] @ ''b'' @ [CHR 0x0A] @ ''c''"] found
  show ?thesis by simp
qed

section \<open>Properties of model extraction\<close>

lemma windowLoop_returns:
  "0 < readSize \<or> statSize \<le> readSize \<Longrightarrow>
   \<exists>r. windowLoop fs JSON_parse fd statSize readSize = Some r"
proof (induction "statSize - readSize" arbitrary: readSize rule: less_induct)
  case less
  show ?case
  proof (cases "readSize < statSize")
    case False
    then show ?thesis
      by (subst windowLoop.simps) (auto split: sum.splits option.splits)
  next
    case True
    with less.prems have pos: "0 < readSize" by simp
    let ?next = "min statSize (readSize * 2)"
    have "statSize - ?next < statSize - readSize" using True pos by auto
    moreover have "0 < ?next \<or> statSize \<le> ?next" using True pos by auto
    ultimately obtain r where "windowLoop fs JSON_parse fd statSize ?next = Some r"
      using less.hyps by blast
    then show ?thesis
      by (subst windowLoop.simps) (auto split: sum.splits option.splits)
  qed
qed

lemma extractBody_returns: "\<exists>r. extractBody fs JSON_parse transcriptPath = Some r"
proof (cases "openSync fs transcriptPath")
  case (Inl e)
  then show ?thesis by (simp add: extractBody_def)
next
  case (Inr fd)
  show ?thesis
  proof (cases "fstatSync fs fd")
    case (Inl e)
    with Inr show ?thesis by (simp add: extractBody_def)
  next
    case size: (Inr statSize)
    have "0 < min statSize (4 * 1024) \<or> statSize \<le> min statSize (4 * 1024)"
      by (cases statSize) auto
    from windowLoop_returns [OF this] Inr size show ?thesis
      by (simp add: extractBody_def)
  qed
qed

lemma extractModelFromTranscript_returns:
  "\<exists>r. extractModelFromTranscript fs JSON_parse transcriptPath = Some (Inr r)"
proof -
  from extractBody_returns obtain r where "extractBody fs JSON_parse transcriptPath = Some r"
    by blast
  then show ?thesis
    by (cases r) (simp_all add: extractModelFromTranscript_def)
qed

lemma lastCarried_snoc:
  "lastCarried P (ls @ [l]) =
     (case carriedModel P l of Some m \<Rightarrow> Some m | None \<Rightarrow> lastCarried P ls)"
  by (auto simp: lastCarried_def split: option.splits)

lemma lastCarried_Nil: "lastCarried P [] = None"
  by (simp add: lastCarried_def)


lemma tryParseLine_carried:
  "closeSync fs fd = Inr u \<Longrightarrow> trim l \<noteq> [] \<Longrightarrow>
   carriedModel P l = (case tryParseLine fs P fd (trim l) of Inl e \<Rightarrow> None | Inr r \<Rightarrow> r)"
  by (auto simp: carriedModel_def tryParseLine_def split: sum.splits)

lemma scanLines_lastCarried:
  "closeSync fs fd = Inr u \<Longrightarrow> n \<le> length ls \<Longrightarrow>
   scanLines fs P fd ls n = lastCarried P (take n ls)"
proof (induction n)
  case 0
  show ?case by (simp add: lastCarried_Nil)
next
  case (Suc i)
  then have i: "i < length ls" by simp
  have IH: "scanLines fs P fd ls i = lastCarried P (take i ls)"
    using Suc by simp
  show ?case
  proof (cases "trim (ls ! i) = []")
    case True
    then have "carriedModel P (ls ! i) = None" by (simp add: carriedModel_def)
    with True IH i show ?thesis
      by (simp add: take_Suc_conv_app_nth lastCarried_snoc)
  next
    case False
    from tryParseLine_carried [OF Suc.prems(1) False, of P]
    show ?thesis using False IH i
      by (auto simp: take_Suc_conv_app_nth lastCarried_snoc split: sum.splits option.splits)
  qed
qed

lemma scanLines_close_fails:
  "closeSync fs fd = Inl e \<Longrightarrow> scanLines fs P fd ls n = None"
  by (induction n) (auto simp: tryParseLine_def split: sum.splits option.splits)

lemma split_nl_no_newline: "CHR 0x0A \<notin> set s \<Longrightarrow> split_nl s = [s]"
  by (induction s) auto








lemma lastCarried_single: "lastCarried P [l] = carriedModel P l"
  using lastCarried_snoc [of P "[]" l]
  by (simp add: lastCarried_Nil split: option.splits)


lemma closeAndGiveUp_regularFile: "closeAndGiveUp (regularFile p content) fd = Inr None"
  by (simp add: closeAndGiveUp_def regularFile_def)

lemma scanLines_regularFile:
  "scanLines (regularFile p content) P fd ls (length ls) = lastCarried P ls"
proof -
  have "closeSync (regularFile p content) fd = Inr ()" by (simp add: regularFile_def)
  from scanLines_lastCarried [OF this, of "length ls" ls P] show ?thesis by simp
qed

lemma windowLoop_regularFile:
  "n \<le> length content \<Longrightarrow> 0 < n \<or> content = [] \<Longrightarrow>
   windowLoop (regularFile p content) P fd (length content) n =
     Some (Inr (expandingWindow P content n))"
proof (induction "length content - n" arbitrary: n rule: less_induct)
  case less
  have rd: "readSync (regularFile p content) fd n (length content - n) =
              Inr (tailWindow content n)"
    using less.prems(1) by (simp add: regularFile_def tailWindow_def)
  show ?case
  proof (cases "lastCarried P (split_nl (tailWindow content n))")
    case (Some m)
    then have "expandingWindow P content n = Some m"
      by (subst expandingWindow.simps) simp
    with Some rd less.prems(1) show ?thesis
      by (subst windowLoop.simps) (simp add: scanLines_regularFile)
  next
    case None
    show ?thesis
    proof (cases "length content \<le> n")
      case True
      with None have "expandingWindow P content n = None"
        by (subst expandingWindow.simps) simp
      with None rd less.prems(1) True show ?thesis
        by (subst windowLoop.simps)
           (simp add: scanLines_regularFile closeAndGiveUp_regularFile)
    next
      case False
      with less.prems have pos: "0 < n" and lt: "n < length content" by auto
      let ?next = "min (length content) (n * 2)"
      have "length content - ?next < length content - n" using pos lt by auto
      moreover have "?next \<le> length content" by simp
      moreover have "0 < ?next \<or> content = []" using pos lt by auto
      ultimately have IH: "windowLoop (regularFile p content) P fd (length content) ?next =
            Some (Inr (expandingWindow P content ?next))"
        by (rule less.hyps)
      have "expandingWindow P content n = expandingWindow P content ?next"
        using None pos lt by (subst expandingWindow.simps) (simp add: mult.commute)
      with None rd lt IH show ?thesis
        by (subst windowLoop.simps) (simp add: scanLines_regularFile)
    qed
  qed
qed

lemma extractModelFromTranscript_regularFile:
  "extractModelFromTranscript (regularFile p content) P p =
     Some (Inr (expandingWindow P content (min (length content) (4 * 1024))))"
proof -
  have "0 < min (length content) (4 * 1024) \<or> content = []"
    by (cases content) auto
  from windowLoop_regularFile [OF _ this, of p P 3] show ?thesis
    by (simp add: extractModelFromTranscript_def extractBody_def regularFile_def)
qed





lemma stripLeading_spaces:
  "stripLeading whitespace (replicate n (CHR 0x20) @ s) = stripLeading whitespace s"
proof (induction n)
  case 0
  show ?case by simp
next
  case (Suc n)
  have "stripLeading whitespace (CHR 0x20 # replicate n (CHR 0x20) @ s) =
          stripLeading whitespace (replicate n (CHR 0x20) @ s)"
    by (subst stripLeading.simps) (simp add: whitespace_def)
  with Suc show ?case by simp
qed

lemma stripLeading_recordText:
  "stripLeading whitespace (recordText m @ s) = recordText m @ s"
  by (subst stripLeading.simps) (simp add: whitespace_def recordText_def)

lemma stripTrailing_recordText:
  "stripLeading (map rev whitespace) (rev (s @ recordText m)) = rev (s @ recordText m)"
  by (subst stripLeading.simps) (simp add: whitespace_def recordText_def)

lemma trim_padded_recordText: "trim (replicate n (CHR 0x20) @ recordText m) = recordText m"
  using stripLeading_recordText [of m "[]"] stripTrailing_recordText [of "[]" m]
  by (simp add: trim_def stripLeading_spaces)


lemma stripLeading_x: "stripLeading whitespace (CHR ''x'' # s) = CHR ''x'' # s"
  by (subst stripLeading.simps) (simp add: whitespace_def)

lemma trim_x_recordText:
  "trim (CHR ''x'' # s @ recordText m) = CHR ''x'' # s @ recordText m"
  using stripTrailing_recordText [of "CHR ''x'' # s" m]
  by (simp add: trim_def stripLeading_x)

lemma recordText_no_newline: "CHR 0x0A \<notin> set m \<Longrightarrow> CHR 0x0A \<notin> set (recordText m)"
  by (simp add: recordText_def)

lemma length_recordText: "length (recordText m) = 24 + length m"
  by (simp add: recordText_def)

lemma carriedModel_X: "carriedModel parseKnown (replicate n (CHR 0x20) @ recordText ''X'') = Some (JString ''X'')"
  by (simp add: carriedModel_def trim_padded_recordText parseKnown_def messageModel_def)
     (simp add: recordText_def)


lemma carriedModel_x_line:
  "carriedModel parseKnown (CHR ''x'' # s @ recordText m) = None"
  by (simp add: carriedModel_def trim_x_recordText parseKnown_def)
     (simp add: recordText_def)
































text \<open>
  A file with no model-bearing line at all can still give a model: \<open>oneBadLine\<close> is one
  malformed line, and the first window holds only its tail, the record for \<open>X\<close>.
\<close>

lemma extractModelFromTranscript_no_model_line:
  "extractModelFromTranscript (regularFile ''transcript.jsonl'' oneBadLine) parseKnown
      ''transcript.jsonl'' = Some (Inr (Some (JString ''X'')))
   \<and> lastCarried parseKnown (split_nl oneBadLine) = None"
proof
  have len: "length oneBadLine = 4122"
    by (simp add: oneBadLine_def length_recordText)
  have "drop 26 (''x'' @ replicate 4096 (CHR 0x20) @ recordText ''X'')
        = drop 25 (replicate 4096 (CHR 0x20) @ recordText ''X'')"
    by simp
  also have "\<dots> = replicate 4071 (CHR 0x20) @ recordText ''X''"
    by simp
  finally have win: "tailWindow oneBadLine 4096 = replicate 4071 (CHR 0x20) @ recordText ''X''"
    by (simp add: tailWindow_def oneBadLine_def length_recordText)
  have "CHR 0x0A \<notin> set (replicate 4071 (CHR 0x20) @ recordText ''X'')"
    by (simp add: recordText_def)
  then have "split_nl (tailWindow oneBadLine 4096) =
               [replicate 4071 (CHR 0x20) @ recordText ''X'']"
    unfolding win by (rule split_nl_no_newline)
  then have "lastCarried parseKnown (split_nl (tailWindow oneBadLine 4096)) =
               Some (JString ''X'')"
    by (simp add: lastCarried_single carriedModel_X)
  then have "expandingWindow parseKnown oneBadLine 4096 = Some (JString ''X'')"
    by (subst expandingWindow.simps) simp
  then show "extractModelFromTranscript (regularFile ''transcript.jsonl'' oneBadLine)
      parseKnown ''transcript.jsonl'' = Some (Inr (Some (JString ''X'')))"
    by (simp add: extractModelFromTranscript_regularFile len)
  have "CHR 0x0A \<notin> set oneBadLine"
    by (simp add: oneBadLine_def recordText_def)
  then have "split_nl oneBadLine = [oneBadLine]"
    by (rule split_nl_no_newline)
  moreover have "carriedModel parseKnown oneBadLine = None"
    using carriedModel_x_line [of "replicate 4096 (CHR 0x20)" "''X''"]
    by (simp add: oneBadLine_def)
  ultimately show "lastCarried parseKnown (split_nl oneBadLine) = None"
    by (simp add: lastCarried_single)
qed

subsection \<open>The claims about model extraction\<close>




section \<open>Properties of the range diff engine with its exceptions\<close>

lemma editRangesThrowing_returns:
  "editRangesThrowing fileContent edit = Inr (editRanges fileContent edit)"
proof (cases "edit_range edit")
  case (Some r)
  then show ?thesis
    by (simp add: editRangesThrowing_def editRanges_def memberOf_def)
next
  case None
  show ?thesis
  proof (cases fileContent)
    case nofile: None
    with None show ?thesis
      by (simp add: editRangesThrowing_def editRanges_def diffCase_def fallbackCase_def Let_def)
  next
    case (Some fc)
    with None show ?thesis
      by (simp add: editRangesThrowing_def editRanges_def diffCase_def fallbackCase_def
          memberOf_def Let_def split: option.splits)
  qed
qed

lemma flatMapThrowing_returns:
  "(\<And>x. f x = Inr (g x)) \<Longrightarrow> flatMapThrowing f xs = Inr (concat (map g xs))"
  by (induction xs) simp_all

lemma computeRangePositionsThrowing_returns:
  "computeRangePositionsThrowing edits fileContent =
     Inr (computeRangePositions edits fileContent)"
  unfolding computeRangePositionsThrowing_def computeRangePositions_def
  by (rule flatMapThrowing_returns) (rule editRangesThrowing_returns)

section \<open>Properties of trace records and the store\<close>

text \<open>
  C5, at the input where the code departs from it: the file
  \<open>/home/user/project-other/file.ts\<close> does not fall under the workspace root
  \<open>/home/user/project\<close>, yet the root is a prefix of it as a string, so
  \<open>toRelativePath\<close> rewrites it, and \<open>createTrace\<close> stores the rewritten path.
\<close>

theorem toRelativePath_sibling_directory:
  "\<not> underRoot ''/home/user/project-other/file.ts'' ''/home/user/project''
   \<and> toRelativePath ''/home/user/project-other/file.ts'' ''/home/user/project''
       = ''../project-other/file.ts''
   \<and> (case createTrace cursorEnv Ai ''/home/user/project-other/file.ts''
              \<lparr>opt_model = None, opt_rangePositions = None, opt_transcript = None,
               opt_metadata = None\<rparr> of
         Inl e \<Rightarrow> []
       | Inr t \<Rightarrow> map path (files t))
       = [''../project-other/file.ts'']"
proof -
  have rel: "toRelativePath ''/home/user/project-other/file.ts'' ''/home/user/project''
       = ''../project-other/file.ts''"
    by (simp add: toRelativePath_def startsWith_def relative_def segments_def)
  have "\<not> underRoot ''/home/user/project-other/file.ts'' ''/home/user/project''"
    by (simp add: underRoot_def)
  moreover have "(case createTrace cursorEnv Ai ''/home/user/project-other/file.ts''
              \<lparr>opt_model = None, opt_rangePositions = None, opt_transcript = None,
               opt_metadata = None\<rparr> of
         Inl e \<Rightarrow> []
       | Inr t \<Rightarrow> map path (files t))
       = [''../project-other/file.ts'']"
    using rel by (simp add: createTrace_def getWorkspaceRoot_def cursorEnv_def Let_def)
  ultimately show ?thesis using rel by simp
qed



text \<open>
  C9. On every input of its declared types, any list of edits and any or no file
  content, \<open>computeRangePositions\<close> returns its list of ranges and does not throw: each
  read of a member of \<open>edit.range\<close> or of \<open>fileContent\<close> stands behind a test that the
  value is there. \<open>extractModelFromTranscript\<close> returns on every file system and with
  every parser, and never throws. \<open>appendTrace\<close> has no fallback: when the log
  directory is missing and \<open>mkdirSync\<close> throws, or when \<open>appendFileSync\<close> throws,
  \<open>appendTrace\<close> throws the same error.
\<close>

theorem error_propagation:
  "computeRangePositionsThrowing edits fileContent =
     Inr (computeRangePositions edits fileContent)
   \<and> (\<exists>r. extractModelFromTranscript fs JSON_parse transcriptPath = Some (Inr r))
   \<and> (getWorkspaceRoot env = Inr rootDir
        \<and> \<not> existsSync ops w (joinPath rootDir ''.agent-trace'')
        \<and> mkdirSync ops w (joinPath rootDir ''.agent-trace'') = Inl e \<longrightarrow>
        appendTrace ops env JSON_stringify trace w = Inl e)
   \<and> (getWorkspaceRoot env = Inr rootDir
        \<and> (if \<not> existsSync ops w (joinPath rootDir ''.agent-trace'')
            then mkdirSync ops w (joinPath rootDir ''.agent-trace'') else Inr w) = Inr w'
        \<and> appendFileSync ops w' (joinPath rootDir TRACE_PATH)
             (JSON_stringify trace @ [CHR 0x0A]) = Inl e \<longrightarrow>
        appendTrace ops env JSON_stringify trace w = Inl e)"
proof (intro conjI impI)
  show "computeRangePositionsThrowing edits fileContent =
     Inr (computeRangePositions edits fileContent)"
    by (rule computeRangePositionsThrowing_returns)
  show "\<exists>r. extractModelFromTranscript fs JSON_parse transcriptPath = Some (Inr r)"
    by (rule extractModelFromTranscript_returns)
  show "appendTrace ops env JSON_stringify trace w = Inl e"
    if "getWorkspaceRoot env = Inr rootDir
        \<and> \<not> existsSync ops w (joinPath rootDir ''.agent-trace'')
        \<and> mkdirSync ops w (joinPath rootDir ''.agent-trace'') = Inl e"
    using that by (simp add: appendTrace_def Let_def)
  show "appendTrace ops env JSON_stringify trace w = Inl e"
    if "getWorkspaceRoot env = Inr rootDir
        \<and> (if \<not> existsSync ops w (joinPath rootDir ''.agent-trace'')
            then mkdirSync ops w (joinPath rootDir ''.agent-trace'') else Inr w) = Inr w'
        \<and> appendFileSync ops w' (joinPath rootDir TRACE_PATH)
             (JSON_stringify trace @ [CHR 0x0A]) = Inl e"
    using that by (simp add: appendTrace_def Let_def)
qed

theorem error_propagation_witness:
  "appendTrace storeOps cursorEnv (\<lambda>t. trace_id t) exampleTrace
      \<lparr>read_only = True, directories = [], contents = []\<rparr> = Inl (SystemError ''EROFS'')
   \<and> appendTrace storeOps cursorEnv (\<lambda>t. trace_id t) exampleTrace
      \<lparr>read_only = True, directories = [''/home/user/project/.agent-trace''], contents = []\<rparr>
     = Inl (SystemError ''EROFS'')
   \<and> computeRangePositionsThrowing
        [\<lparr>old_string = ''a'', new_string = ''b'', edit_range = None\<rparr>,
         \<lparr>old_string = ''z'', new_string = ''c'',
          edit_range = Some \<lparr>start_line_number = 4, end_line_number = 4,
                             start_column = 1, end_column = 2\<rparr>\<rparr>] None
     = Inr [\<lparr>start_line = 1, end_line = 1\<rparr>, \<lparr>start_line = 4, end_line = 4\<rparr>]"
proof -
  let ?w1 = "\<lparr>read_only = True, directories = [], contents = []\<rparr>"
  let ?w2 = "\<lparr>read_only = True, directories = [''/home/user/project/.agent-trace''],
              contents = []\<rparr>"
  have rootDir: "getWorkspaceRoot cursorEnv = Inr ''/home/user/project''"
    by (simp add: getWorkspaceRoot_def cursorEnv_def)
  have dir: "joinPath ''/home/user/project'' ''.agent-trace'' = ''/home/user/project/.agent-trace''"
    by (simp add: joinPath_def normalize_def Let_def)
  have h1: "\<not> existsSync storeOps ?w1 (joinPath ''/home/user/project'' ''.agent-trace'')
        \<and> mkdirSync storeOps ?w1 (joinPath ''/home/user/project'' ''.agent-trace'')
            = Inl (SystemError ''EROFS'')"
    by (simp add: storeOps_def)
  have h2: "(if \<not> existsSync storeOps ?w2 (joinPath ''/home/user/project'' ''.agent-trace'')
            then mkdirSync storeOps ?w2 (joinPath ''/home/user/project'' ''.agent-trace'')
            else Inr ?w2) = Inr ?w2
        \<and> appendFileSync storeOps ?w2 (joinPath ''/home/user/project'' TRACE_PATH)
             (trace_id exampleTrace @ [CHR 0x0A]) = Inl (SystemError ''EROFS'')"
    unfolding dir by (simp add: storeOps_def)
  from error_propagation
    [where env = cursorEnv and rootDir = "''/home/user/project''" and ops = storeOps
       and w = ?w1 and e = "SystemError ''EROFS''" and JSON_stringify = "\<lambda>t. trace_id t"
       and trace = exampleTrace] rootDir h1
  have r1: "appendTrace storeOps cursorEnv (\<lambda>t. trace_id t) exampleTrace ?w1
      = Inl (SystemError ''EROFS'')"
    by blast
  from error_propagation
    [where env = cursorEnv and rootDir = "''/home/user/project''" and ops = storeOps
       and w = ?w2 and w' = ?w2 and e = "SystemError ''EROFS''"
       and JSON_stringify = "\<lambda>t. trace_id t" and trace = exampleTrace] rootDir h2
  have r2: "appendTrace storeOps cursorEnv (\<lambda>t. trace_id t) exampleTrace ?w2
      = Inl (SystemError ''EROFS'')"
    by blast
  let ?edits = "[\<lparr>old_string = ''a'', new_string = ''b'', edit_range = None\<rparr>,
         \<lparr>old_string = ''z'', new_string = ''c'',
          edit_range = Some \<lparr>start_line_number = 4, end_line_number = 4,
                             start_column = 1, end_column = 2\<rparr>\<rparr>]"
  have pure: "computeRangePositions ?edits None
      = [\<lparr>start_line = 1, end_line = 1\<rparr>, \<lparr>start_line = 4, end_line = 4\<rparr>]"
    by (simp add: computeRangePositions_def editRanges_def diffCase_def fallbackCase_def)
  from error_propagation [where edits = ?edits and fileContent = None]
  have "computeRangePositionsThrowing ?edits None = Inr (computeRangePositions ?edits None)"
    by (rule conjunct1)
  then have r3: "computeRangePositionsThrowing ?edits None
      = Inr [\<lparr>start_line = 1, end_line = 1\<rparr>, \<lparr>start_line = 4, end_line = 4\<rparr>]"
    by (simp only: pure)
  from r1 r2 r3 show ?thesis by (intro conjI) assumption+
qed

end
